theory Spec2Isabelle
  imports Main
begin

section \<open>The documentation site's layout code, embedded\<close>

text \<open>
  The repository's executable code is three TypeScript modules: the root layout of the
  internationalised documentation site (\<^verbatim>\<open>docs/app/[lang]/layout.tsx\<close>), the shared layout
  options (\<^verbatim>\<open>docs/app/layout.config.tsx\<close>) and the content-collection configuration.
  They are embedded here function by function.

  Strings are \<open>char list\<close>s holding the UTF-8 bytes of the source file's literals, so the
  Chinese texts are written as byte lists. The requested language is a string of the same
  kind.
\<close>

subsection \<open>JavaScript values, truthiness and property reads\<close>

text \<open>
  The values the layout code handles. \<open>JBuiltin k\<close> is what a property read finds under
  the name \<open>k\<close> on \<^verbatim>\<open>Object.prototype\<close>: a built-in function, or for \<^verbatim>\<open>__proto__\<close> the
  prototype object itself. It is an object, hence truthy, and it is neither a string, an
  array, a table of the program nor \<^verbatim>\<open>undefined\<close>.
\<close>

datatype js_value =
    JUndefined
  | JString string
  | JArray "js_value list"
  | JObject "(string \<times> js_value) list"
  | JBuiltin string

type_synonym js_object = "(string \<times> js_value) list"

text \<open>\<^verbatim>\<open>ToBoolean\<close>: \<^verbatim>\<open>undefined\<close> and the empty string are falsy, every object is truthy.\<close>

fun truthy :: "js_value \<Rightarrow> bool" where
  "truthy JUndefined = False"
| "truthy (JString s) = (s \<noteq> [])"
| "truthy (JArray xs) = True"
| "truthy (JObject ps) = True"
| "truthy (JBuiltin k) = True"

text \<open>\<^verbatim>\<open>a || b\<close> yields \<open>a\<close> when it is truthy and \<open>b\<close> otherwise.\<close>

definition js_or :: "js_value \<Rightarrow> js_value \<Rightarrow> js_value" where
  "js_or a b = (if truthy a then a else b)"

text \<open>\<^verbatim>\<open>a ?? b\<close> yields \<open>b\<close> only when \<open>a\<close> is \<^verbatim>\<open>undefined\<close> (no value here is \<^verbatim>\<open>null\<close>).\<close>

definition js_nullish :: "js_value \<Rightarrow> js_value \<Rightarrow> js_value" where
  "js_nullish a b = (if a = JUndefined then b else a)"

text \<open>
  The property names of \<^verbatim>\<open>Object.prototype\<close>, the prototype of every object written as a
  literal \<^verbatim>\<open>{ ... }\<close> (ECMAScript, properties of the Object prototype object).
\<close>

definition Object_prototype_keys :: "string list" where
  "Object_prototype_keys =
     [''constructor'', ''hasOwnProperty'', ''isPrototypeOf'', ''propertyIsEnumerable'',
      ''toLocaleString'', ''toString'', ''valueOf'', ''__proto__'',
      ''__defineGetter__'', ''__defineSetter__'', ''__lookupGetter__'', ''__lookupSetter__'']"

text \<open>
  \<^verbatim>\<open>obj[key]\<close> on an object literal: the object's own property when it has one of that
  name, else the property \<^verbatim>\<open>Object.prototype\<close> has under that name, else \<^verbatim>\<open>undefined\<close>.
  The TypeScript cast \<^verbatim>\<open>lang as keyof typeof titles\<close> is erased at compile time and
  checks nothing at run time. A read never throws.
\<close>

definition js_get :: "js_object \<Rightarrow> string \<Rightarrow> js_value" where
  "js_get obj key =
     (case map_of obj key of
        Some v \<Rightarrow> v
      | None \<Rightarrow> if key \<in> set Object_prototype_keys then JBuiltin key else JUndefined)"

text \<open>
  A promise that has settled. \<^verbatim>\<open>await p\<close> and React's \<^verbatim>\<open>use(p)\<close> give the value of a
  fulfilled promise and throw the reason of a rejected one.
\<close>

datatype ('e, 'a) promise = Rejected 'e | Fulfilled 'a

subsection \<open>\<^verbatim>\<open>docs/app/[lang]/layout.tsx\<close>\<close>

text \<open>
  The \<^verbatim>\<open>i18n\<close> object is imported from the module \<^verbatim>\<open>@/lib/i18n\<close>; the functions that
  use it take it as the argument \<open>i18n_cfg\<close>. Only its \<^verbatim>\<open>languages\<close> array is read, so
  any further fields it has stay in the record's extension.
\<close>

record i18n_config =
  languages :: "string list"

record params =
  lang :: string

definition generateStaticParams :: "'z i18n_config_scheme \<Rightarrow> params list" where
  "generateStaticParams i18n_cfg = map (\<lambda>lang. \<lparr>lang = lang\<rparr>) (languages i18n_cfg)"

text \<open>The Chinese translations, \<^verbatim>\<open>const zh = { search: ... }\<close>.\<close>

definition zh :: js_object where
  "zh = [(''search'', JString [CHR 0xE6, CHR 0x90, CHR 0x9C, CHR 0xE7, CHR 0xB4, CHR 0xA2])]"

text \<open>The module's \<^verbatim>\<open>locales\<close> array of \<^verbatim>\<open>{ name, locale }\<close> entries.\<close>

record language_entry =
  entry_name :: string
  entry_locale :: string

definition locales :: "language_entry list" where
  "locales =
     [\<lparr>entry_name = ''English'', entry_locale = ''en''\<rparr>,
      \<lparr>entry_name = [CHR 0xE4, CHR 0xB8, CHR 0xAD, CHR 0xE6, CHR 0x96, CHR 0x87],
       entry_locale = ''zh''\<rparr>]"

text \<open>The four tables \<^verbatim>\<open>generateMetadata\<close> declares, in the order of the source.\<close>

definition titles :: js_object where
  "titles =
     [(''en'', JString
         ''Youtu-RAG - An open-source multimodal RAG system for complex documents''),
      (''zh'', JString
         (''Youtu-RAG - '' @ [CHR 0xE5, CHR 0xBC, CHR 0x80, CHR 0xE6, CHR 0xBA, CHR 0x90,
           CHR 0xE7, CHR 0x9A, CHR 0x84, CHR 0xE5, CHR 0xA4, CHR 0x9A, CHR 0xE6, CHR 0xA8,
           CHR 0xA1, CHR 0xE6, CHR 0x80, CHR 0x81] @ '' RAG '' @ [CHR 0xE7, CHR 0xB3,
           CHR 0xBB, CHR 0xE7, CHR 0xBB, CHR 0x9F, CHR 0xEF, CHR 0xBC, CHR 0x8C, CHR 0xE4,
           CHR 0xB8, CHR 0x93, CHR 0xE6, CHR 0xB3, CHR 0xA8, CHR 0xE4, CHR 0xBA, CHR 0x8E,
           CHR 0xE5, CHR 0xA4, CHR 0x8D, CHR 0xE6, CHR 0x9D, CHR 0x82, CHR 0xE6, CHR 0x96,
           CHR 0x87, CHR 0xE6, CHR 0xA1, CHR 0xA3, CHR 0xE7, CHR 0x90, CHR 0x86, CHR 0xE8,
           CHR 0xA7, CHR 0xA3]))]"

definition descriptions :: js_object where
  "descriptions =
     [(''en'', JString
         (''Youtu-RAG is an open-source multimodal RAG system designed for complex ''
          @ ''document understanding. It provides advanced capabilities for parsing, ''
          @ ''chunking, embedding, and retrieving information from various document ''
          @ ''types including PDFs, images, Excel files, and databases.'')),
      (''zh'', JString
         (''Youtu-RAG '' @ [CHR 0xE6, CHR 0x98, CHR 0xAF, CHR 0xE4, CHR 0xB8, CHR 0x80,
           CHR 0xE4, CHR 0xB8, CHR 0xAA, CHR 0xE5, CHR 0xBC, CHR 0x80, CHR 0xE6, CHR 0xBA,
           CHR 0x90, CHR 0xE7, CHR 0x9A, CHR 0x84, CHR 0xE5, CHR 0xA4, CHR 0x9A, CHR 0xE6,
           CHR 0xA8, CHR 0xA1, CHR 0xE6, CHR 0x80, CHR 0x81] @ '' RAG '' @ [CHR 0xE7,
           CHR 0xB3, CHR 0xBB, CHR 0xE7, CHR 0xBB, CHR 0x9F, CHR 0xEF, CHR 0xBC, CHR 0x8C,
           CHR 0xE4, CHR 0xB8, CHR 0x93, CHR 0xE6, CHR 0xB3, CHR 0xA8, CHR 0xE4, CHR 0xBA,
           CHR 0x8E, CHR 0xE5, CHR 0xA4, CHR 0x8D, CHR 0xE6, CHR 0x9D, CHR 0x82, CHR 0xE6,
           CHR 0x96, CHR 0x87, CHR 0xE6, CHR 0xA1, CHR 0xA3, CHR 0xE7, CHR 0x90, CHR 0x86,
           CHR 0xE8, CHR 0xA7, CHR 0xA3, CHR 0xE3, CHR 0x80, CHR 0x82, CHR 0xE6, CHR 0x8F,
           CHR 0x90, CHR 0xE4, CHR 0xBE, CHR 0x9B, CHR 0xE5, CHR 0x85, CHR 0x88, CHR 0xE8,
           CHR 0xBF, CHR 0x9B, CHR 0xE7, CHR 0x9A, CHR 0x84, CHR 0xE6, CHR 0x96, CHR 0x87,
           CHR 0xE6, CHR 0xA1, CHR 0xA3, CHR 0xE8, CHR 0xA7, CHR 0xA3, CHR 0xE6, CHR 0x9E,
           CHR 0x90, CHR 0xE3, CHR 0x80, CHR 0x81, CHR 0xE5, CHR 0x88, CHR 0x86, CHR 0xE5,
           CHR 0x9D, CHR 0x97, CHR 0xE3, CHR 0x80, CHR 0x81, CHR 0xE5, CHR 0xB5, CHR 0x8C,
           CHR 0xE5, CHR 0x85, CHR 0xA5, CHR 0xE5, CHR 0x92, CHR 0x8C, CHR 0xE6, CHR 0xA3,
           CHR 0x80, CHR 0xE7, CHR 0xB4, CHR 0xA2, CHR 0xE8, CHR 0x83, CHR 0xBD, CHR 0xE5,
           CHR 0x8A, CHR 0x9B, CHR 0xEF, CHR 0xBC, CHR 0x8C, CHR 0xE6, CHR 0x94, CHR 0xAF,
           CHR 0xE6, CHR 0x8C, CHR 0x81] @ '' PDF'' @ [CHR 0xE3, CHR 0x80, CHR 0x81,
           CHR 0xE5, CHR 0x9B, CHR 0xBE, CHR 0xE7, CHR 0x89, CHR 0x87, CHR 0xE3, CHR 0x80,
           CHR 0x81] @ ''Excel'' @ [CHR 0xE3, CHR 0x80, CHR 0x81, CHR 0xE6, CHR 0x95,
           CHR 0xB0, CHR 0xE6, CHR 0x8D, CHR 0xAE, CHR 0xE5, CHR 0xBA, CHR 0x93, CHR 0xE7,
           CHR 0xAD, CHR 0x89, CHR 0xE5, CHR 0xA4, CHR 0x9A, CHR 0xE7, CHR 0xA7, CHR 0x8D,
           CHR 0xE6, CHR 0x96, CHR 0x87, CHR 0xE6, CHR 0xA1, CHR 0xA3, CHR 0xE7, CHR 0xB1,
           CHR 0xBB, CHR 0xE5, CHR 0x9E, CHR 0x8B, CHR 0xE3, CHR 0x80, CHR 0x82]))]"

definition keywordsMap :: js_object where
  "keywordsMap =
     [(''en'', JArray
         [JString ''Youtu-RAG'', JString ''RAG'', JString ''Multimodal'',
          JString ''Document Understanding'', JString ''AI'', JString ''Open Source'',
          JString ''HiChunk'', JString ''Embedding'']),
      (''zh'', JArray
         [JString ''Youtu-RAG'', JString ''RAG'',
          JString [CHR 0xE5, CHR 0xA4, CHR 0x9A, CHR 0xE6, CHR 0xA8, CHR 0xA1, CHR 0xE6,
            CHR 0x80, CHR 0x81],
          JString [CHR 0xE6, CHR 0x96, CHR 0x87, CHR 0xE6, CHR 0xA1, CHR 0xA3, CHR 0xE7,
            CHR 0x90, CHR 0x86, CHR 0xE8, CHR 0xA7, CHR 0xA3],
          JString ''AI'',
          JString [CHR 0xE5, CHR 0xBC, CHR 0x80, CHR 0xE6, CHR 0xBA, CHR 0x90],
          JString ''HiChunk'',
          JString [CHR 0xE5, CHR 0x90, CHR 0x91, CHR 0xE9, CHR 0x87, CHR 0x8F, CHR 0xE5,
            CHR 0xB5, CHR 0x8C, CHR 0xE5, CHR 0x85, CHR 0xA5]])]"

text \<open>
  Inside \<^verbatim>\<open>generateMetadata\<close> the source calls this table \<^verbatim>\<open>locales\<close> too, shadowing
  the module's array of that name.
\<close>

definition og_locales :: js_object where
  "og_locales = [(''en'', JString ''en_US''), (''zh'', JString ''zh_CN'')]"

text \<open>The returned metadata object, field by field.\<close>

record icons_md =
  icon :: string
  apple :: string

record og_image =
  url :: string
  width :: int
  height :: int
  alt :: string

record open_graph =
  og_title :: js_value
  og_description :: js_value
  og_images :: "og_image list"
  og_locale :: js_value
  og_type :: string

record twitter_md =
  tw_card :: string
  tw_title :: js_value
  tw_description :: js_value
  tw_images :: "string list"

record metadata =
  title :: js_value
  description :: js_value
  keywords_md :: js_value
  icons :: icons_md
  openGraph :: open_graph
  twitter :: twitter_md

text \<open>
  \<^verbatim>\<open>generateMetadata\<close> is \<^verbatim>\<open>async\<close>: it awaits \<^verbatim>\<open>params\<close>, so a rejected \<^verbatim>\<open>params\<close>
  rejects the result with the same reason, and otherwise the result is fulfilled with
  the object built from the four selections.
\<close>

fun generateMetadata :: "('e, params) promise \<Rightarrow> ('e, metadata) promise" where
  "generateMetadata (Rejected e) = Rejected e"
| "generateMetadata (Fulfilled resolvedParams) =
     (let lang = lang resolvedParams;
          title = js_or (js_get titles lang) (js_get titles ''en'');
          description = js_or (js_get descriptions lang) (js_get descriptions ''en'');
          keywords = js_or (js_get keywordsMap lang) (js_get keywordsMap ''en'');
          locale = js_or (js_get og_locales lang) (js_get og_locales ''en'')
      in Fulfilled
        \<lparr>title = title,
         description = description,
         keywords_md = keywords,
         icons = \<lparr>icon = ''/images/favicon.png'', apple = ''/images/favicon.png''\<rparr>,
         openGraph =
           \<lparr>og_title = title,
            og_description = description,
            og_images =
              [\<lparr>url = ''/images/hello-adp.png'', width = 1200, height = 630,
                alt = ''Youtu-RAG Logo''\<rparr>],
            og_locale = locale,
            og_type = ''website''\<rparr>,
         twitter =
           \<lparr>tw_card = ''summary_large_image'',
            tw_title = title,
            tw_description = description,
            tw_images = [''/images/hello-adp.png'']\<rparr>\<rparr>)"

text \<open>
  The element \<^verbatim>\<open>Layout\<close> returns: \<^verbatim>\<open>ClientRootProvider\<close> with its \<^verbatim>\<open>i18n\<close> prop and its
  children. The children are an arbitrary node tree.
\<close>

record provider_i18n =
  i18n_locale :: string
  i18n_locales :: "language_entry list"
  i18n_translations :: js_value

datatype 'c element = ClientRootProvider provider_i18n 'c

text \<open>
  \<^verbatim>\<open>Layout\<close> reads \<^verbatim>\<open>params\<close> with \<^verbatim>\<open>use\<close>, which throws the reason of a rejected
  promise (\<open>Inl\<close>). The translations are \<^verbatim>\<open>{ zh }[lang]\<close>.
\<close>

fun Layout :: "'c \<Rightarrow> ('e, params) promise \<Rightarrow> 'e + 'c element" where
  "Layout children (Rejected e) = Inl e"
| "Layout children (Fulfilled resolvedParams) =
     (let lang = lang resolvedParams;
          translations = js_get [(''zh'', JObject zh)] lang
      in Inr (ClientRootProvider
           \<lparr>i18n_locale = lang, i18n_locales = locales, i18n_translations = translations\<rparr>
           children))"

subsection \<open>\<^verbatim>\<open>docs/app/layout.config.tsx\<close>\<close>

text \<open>
  The JSX of the navigation title: a fragment holding one \<^verbatim>\<open>Image\<close> element
  (\<open>Image_jsx\<close>). The helper \<^verbatim>\<open>getAssetPath\<close> is imported from the module
  \<^verbatim>\<open>@/lib/utils\<close>, so \<^verbatim>\<open>baseOptions\<close> takes it as an argument, as it takes the imported
  \<^verbatim>\<open>i18n\<close> object. The parameter \<open>locale\<close> is not used in the body.
\<close>

record image_props =
  src :: string
  img_alt :: string
  img_width :: int
  img_height :: int

datatype jsx = Image_jsx image_props | Fragment "jsx list"

record nav_options =
  nav_title :: jsx

record 'i base_layout_props =
  i18n :: 'i
  nav :: nav_options

definition baseOptions ::
  "(string \<Rightarrow> string) \<Rightarrow> 'i \<Rightarrow> string \<Rightarrow> 'i base_layout_props" where
  "baseOptions getAssetPath i18n_cfg locale =
     \<lparr>i18n = i18n_cfg,
      nav = \<lparr>nav_title = Fragment
        [Image_jsx \<lparr>src = getAssetPath ''/assets/logo.svg'', img_alt = ''Youtu-RAG'',
                    img_width = 100, img_height = 50\<rparr>]\<rparr>\<rparr>"

subsection \<open>The content-collection configuration\<close>

text \<open>
  \<^verbatim>\<open>export const docs = defineDocs({ docs: {}, meta: {} })\<close>: the object handed to the
  framework's \<^verbatim>\<open>defineDocs\<close>, one options object per collection, in the order written.
  Both options objects are empty (their bodies are comments).
\<close>

definition defineDocs_options :: "(string \<times> js_object) list" where
  "defineDocs_options = [(''docs'', []), (''meta'', [])]"

subsection \<open>The reference rule of the specification\<close>

text \<open>
  The specification's rule for choosing a per-locale value, written from its words and
  not from the code: \<open>table[locale]\<close> if \<open>locale\<close> is a key of \<open>table\<close>, otherwise
  \<open>table[default]\<close>. A key of the table is one of the keys the table is written with.
\<close>

definition resolve :: "js_object \<Rightarrow> string \<Rightarrow> string \<Rightarrow> js_value" where
  "resolve table locale default_locale =
     (case map_of table locale of
        Some v \<Rightarrow> v
      | None \<Rightarrow> (case map_of table default_locale of Some d \<Rightarrow> d | None \<Rightarrow> JUndefined))"

section \<open>Properties\<close>

subsection \<open>Reading a table and falling back\<close>

lemma js_get_own: "map_of obj key = Some v \<Longrightarrow> js_get obj key = v"
  by (simp add: js_get_def)

lemma js_get_absent:
  "map_of obj key = None \<Longrightarrow> key \<notin> set Object_prototype_keys \<Longrightarrow> js_get obj key = JUndefined"
  by (simp add: js_get_def)

lemma js_get_inherited:
  "map_of obj key = None \<Longrightarrow> key \<in> set Object_prototype_keys \<Longrightarrow> js_get obj key = JBuiltin key"
  by (simp add: js_get_def)

lemma js_or_same [simp]: "js_or a a = a"
  by (simp add: js_or_def)

lemma js_or_undefined [simp]: "js_or JUndefined b = b"
  by (simp add: js_or_def)

lemma js_or_truthy: "truthy a \<Longrightarrow> js_or a b = a"
  by (simp add: js_or_def)

text \<open>
  The keys the four tables are written with are \<open>en\<close> and \<open>zh\<close>, and every entry is
  truthy: a non-empty string or an array.
\<close>

lemma table_keys:
  "map fst titles = [''en'', ''zh'']"
  "map fst descriptions = [''en'', ''zh'']"
  "map fst keywordsMap = [''en'', ''zh'']"
  "map fst og_locales = [''en'', ''zh'']"
  by (simp_all add: titles_def descriptions_def keywordsMap_def og_locales_def)

lemma table_entries_truthy:
  "list_all truthy (map snd titles)"
  "list_all truthy (map snd descriptions)"
  "list_all truthy (map snd keywordsMap)"
  "list_all truthy (map snd og_locales)"
  by (simp_all add: titles_def descriptions_def keywordsMap_def og_locales_def)

lemma map_of_absent: "key \<notin> set (map fst obj) \<Longrightarrow> map_of obj key = None"
  by (simp add: map_of_eq_None_iff)

lemma map_of_truthy:
  "list_all truthy (map snd obj) \<Longrightarrow> map_of obj key = Some v \<Longrightarrow> truthy v"
  by (induction obj) (auto split: if_splits)

text \<open>
  One selection \<^verbatim>\<open>table[lang] || table.en\<close>, by the three cases of the read: an own key
  of a table with truthy entries, a name inherited from \<^verbatim>\<open>Object.prototype\<close>, and any
  other string.
\<close>

lemma select_own:
  assumes "list_all truthy (map snd table)" and "map_of table l = Some v"
  shows "js_or (js_get table l) d = v"
  using assms by (simp add: js_get_own js_or_truthy map_of_truthy)

lemma select_inherited:
  assumes "l \<notin> set (map fst table)" and "l \<in> set Object_prototype_keys"
  shows "js_or (js_get table l) d = JBuiltin l"
  using assms by (simp add: js_get_inherited map_of_absent js_or_truthy)

lemma select_fallback:
  assumes "l \<notin> set (map fst table)" and "l \<notin> set Object_prototype_keys"
  shows "js_or (js_get table l) d = d"
  using assms by (simp add: js_get_absent map_of_absent)

text \<open>
  On these tables \<^verbatim>\<open>||\<close> and \<^verbatim>\<open>??\<close> select the same value for every requested
  language: no entry is falsy, and an inherited member is neither falsy nor
  \<^verbatim>\<open>undefined\<close>.
\<close>

lemma or_is_nullish:
  assumes "list_all truthy (map snd table)"
  shows "js_or (js_get table l) d = js_nullish (js_get table l) d"
proof (cases "map_of table l")
  case None
  then show ?thesis
    by (simp add: js_get_def js_or_def js_nullish_def)
next
  case (Some v)
  with assms have "truthy v"
    by (simp add: map_of_truthy)
  with Some show ?thesis
    by (cases v) (simp_all add: js_get_def js_or_def js_nullish_def)
qed

text \<open>
  Away from the names of \<^verbatim>\<open>Object.prototype\<close>, a selection is the reference rule with the
  default \<open>en\<close>.
\<close>

lemma select_is_resolve:
  assumes "list_all truthy (map snd table)" and "l \<notin> set Object_prototype_keys"
  shows "js_or (js_get table l) (js_get table ''en'') = resolve table l ''en''"
proof (cases "map_of table l")
  case None
  with assms(2) have "js_or (js_get table l) (js_get table ''en'') = js_get table ''en''"
    by (simp add: js_get_absent)
  moreover have "''en'' \<notin> set Object_prototype_keys"
    by (simp add: Object_prototype_keys_def)
  then have "js_get table ''en'' = resolve table l ''en''"
    using None by (simp add: js_get_def resolve_def split: option.splits)
  ultimately show ?thesis
    by simp
next
  case (Some v)
  with assms(1) show ?thesis
    by (simp add: select_own resolve_def)
qed

text \<open>
  Once \<^verbatim>\<open>params\<close> is fulfilled, neither function fails: \<^verbatim>\<open>generateMetadata\<close> is
  fulfilled and \<^verbatim>\<open>Layout\<close> returns an element, whatever the requested language.
\<close>

lemma generateMetadata_fulfilled: "\<exists>m. generateMetadata (Fulfilled p) = Fulfilled m"
  by (simp add: Let_def)

lemma Layout_returns: "\<exists>el. Layout c (Fulfilled p) = Inr el"
  by (simp add: Let_def)

lemma generateMetadata_rejected: "generateMetadata (Rejected e) = Rejected e"
  by simp

text \<open>
  The translations selection \<^verbatim>\<open>{ zh }[lang]\<close>, by the cases of the read: the Chinese table
  for \<open>zh\<close>, and \<^verbatim>\<open>undefined\<close> for every other string that is not a name of
  \<^verbatim>\<open>Object.prototype\<close> (the language \<open>en\<close> included).
\<close>

lemma Layout_zh:
  "Layout c (Fulfilled \<lparr>lang = ''zh''\<rparr>) =
     Inr (ClientRootProvider
       \<lparr>i18n_locale = ''zh'', i18n_locales = locales, i18n_translations = JObject zh\<rparr> c)"
  by (simp add: Let_def js_get_def)

lemma Layout_no_translations:
  assumes "l \<noteq> ''zh''" and "l \<notin> set Object_prototype_keys"
  shows "Layout c (Fulfilled \<lparr>lang = l\<rparr>) =
     Inr (ClientRootProvider
       \<lparr>i18n_locale = l, i18n_locales = locales, i18n_translations = JUndefined\<rparr> c)"
proof -
  from assms(1) have "map_of [(''zh'', JObject zh)] l = None"
    by simp
  with assms(2) have "js_get [(''zh'', JObject zh)] l = JUndefined"
    by (simp add: js_get_absent)
  then show ?thesis
    by (simp add: Let_def)
qed

text \<open>
  The metadata of a language outside the tables that is not a name of
  \<^verbatim>\<open>Object.prototype\<close> is the metadata of \<open>en\<close>.
\<close>

lemma generateMetadata_fallback:
  assumes "l \<noteq> ''en''" and "l \<noteq> ''zh''" and "l \<notin> set Object_prototype_keys"
  shows "generateMetadata (Fulfilled \<lparr>lang = l\<rparr>) = generateMetadata (Fulfilled \<lparr>lang = ''en''\<rparr>)"
proof -
  from assms(1,2) have absent:
    "l \<notin> set (map fst titles)" "l \<notin> set (map fst descriptions)"
    "l \<notin> set (map fst keywordsMap)" "l \<notin> set (map fst og_locales)"
    by (simp_all add: table_keys)
  have "js_or (js_get titles l) (js_get titles ''en'') = js_get titles ''en''"
    and "js_or (js_get descriptions l) (js_get descriptions ''en'') = js_get descriptions ''en''"
    and "js_or (js_get keywordsMap l) (js_get keywordsMap ''en'') = js_get keywordsMap ''en''"
    and "js_or (js_get og_locales l) (js_get og_locales ''en'') = js_get og_locales ''en''"
    using absent assms(3) by (simp_all add: select_fallback)
  then show ?thesis
    by (simp add: Let_def)
qed

text \<open>
  A language that names a property of \<^verbatim>\<open>Object.prototype\<close> is not a key of the tables,
  and all four selections yield the inherited member instead of the \<open>en\<close> entry.
\<close>

lemma prototype_keys_unsupported:
  assumes "l \<in> set Object_prototype_keys"
  shows "l \<noteq> ''en''" and "l \<noteq> ''zh''"
  using assms by (auto simp add: Object_prototype_keys_def)

lemma selections_inherited:
  assumes "l \<in> set Object_prototype_keys"
  shows "js_or (js_get titles l) (js_get titles ''en'') = JBuiltin l"
    and "js_or (js_get descriptions l) (js_get descriptions ''en'') = JBuiltin l"
    and "js_or (js_get keywordsMap l) (js_get keywordsMap ''en'') = JBuiltin l"
    and "js_or (js_get og_locales l) (js_get og_locales ''en'') = JBuiltin l"
proof -
  from prototype_keys_unsupported [OF assms] have
    "l \<notin> set (map fst titles)" "l \<notin> set (map fst descriptions)"
    "l \<notin> set (map fst keywordsMap)" "l \<notin> set (map fst og_locales)"
    by (simp_all add: table_keys)
  with assms show "js_or (js_get titles l) (js_get titles ''en'') = JBuiltin l"
    and "js_or (js_get descriptions l) (js_get descriptions ''en'') = JBuiltin l"
    and "js_or (js_get keywordsMap l) (js_get keywordsMap ''en'') = JBuiltin l"
    and "js_or (js_get og_locales l) (js_get og_locales ''en'') = JBuiltin l"
    by (simp_all add: select_inherited)
qed

text \<open>What the reference rule gives at a language outside a table: the \<open>en\<close> entry.\<close>

lemma resolve_unsupported:
  assumes "l \<notin> set (map fst table)" and "map_of table ''en'' = Some v"
  shows "resolve table l ''en'' = v"
  using assms by (simp add: resolve_def map_of_absent)

text \<open>
  Away from the names of \<^verbatim>\<open>Object.prototype\<close>, a language outside the tables gets what
  \<open>en\<close> gets: the metadata of \<open>en\<close>, and \<^verbatim>\<open>undefined\<close> translations, which is what
  \<^verbatim>\<open>Layout\<close> passes for \<open>en\<close> too.
\<close>

lemma unrecognized_like_en:
  assumes "l \<noteq> ''en''" and "l \<noteq> ''zh''" and "l \<notin> set Object_prototype_keys"
  shows "generateMetadata (Fulfilled \<lparr>lang = l\<rparr>) =
           generateMetadata (Fulfilled \<lparr>lang = ''en''\<rparr>)"
    and "\<exists>tr. Layout c (Fulfilled \<lparr>lang = l\<rparr>) =
           Inr (ClientRootProvider
             \<lparr>i18n_locale = l, i18n_locales = locales, i18n_translations = tr\<rparr> c) \<and>
         Layout c (Fulfilled \<lparr>lang = ''en''\<rparr>) =
           Inr (ClientRootProvider
             \<lparr>i18n_locale = ''en'', i18n_locales = locales, i18n_translations = tr\<rparr> c)"
proof -
  show "generateMetadata (Fulfilled \<lparr>lang = l\<rparr>) = generateMetadata (Fulfilled \<lparr>lang = ''en''\<rparr>)"
    using assms by (rule generateMetadata_fallback)
  have "''en'' \<notin> set Object_prototype_keys"
    by (simp add: Object_prototype_keys_def)
  then have "Layout c (Fulfilled \<lparr>lang = ''en''\<rparr>) =
      Inr (ClientRootProvider
        \<lparr>i18n_locale = ''en'', i18n_locales = locales, i18n_translations = JUndefined\<rparr> c)"
    by (intro Layout_no_translations) simp_all
  moreover have "Layout c (Fulfilled \<lparr>lang = l\<rparr>) =
      Inr (ClientRootProvider
        \<lparr>i18n_locale = l, i18n_locales = locales, i18n_translations = JUndefined\<rparr> c)"
    using assms(2,3) by (rule Layout_no_translations)
  ultimately show "\<exists>tr. Layout c (Fulfilled \<lparr>lang = l\<rparr>) =
           Inr (ClientRootProvider
             \<lparr>i18n_locale = l, i18n_locales = locales, i18n_translations = tr\<rparr> c) \<and>
         Layout c (Fulfilled \<lparr>lang = ''en''\<rparr>) =
           Inr (ClientRootProvider
             \<lparr>i18n_locale = ''en'', i18n_locales = locales, i18n_translations = tr\<rparr> c)"
    by blast
qed

subsection \<open>The claims\<close>

text \<open>
  C1. For every language that is not a key of the tables (neither \<open>en\<close> nor \<open>zh\<close>),
  \<^verbatim>\<open>generateMetadata\<close> should return the metadata of the default locale \<open>en\<close>. The code
  does not, at a language that names a property of \<^verbatim>\<open>Object.prototype\<close>: for
  \<open>constructor\<close>, which is not a key of any table, each read \<^verbatim>\<open>table[lang]\<close> finds the
  inherited \<^verbatim>\<open>Object\<close> function, which is truthy, so \<^verbatim>\<open>||\<close> never reaches the English entry.
  The title, description, keywords and Open Graph locale are that function, and the result
  differs from the metadata of \<open>en\<close>.
\<close>

theorem generateMetadata_constructor:
  "''constructor'' \<notin> set (map fst titles) \<and>
   generateMetadata (Fulfilled \<lparr>lang = ''constructor''\<rparr>) =
     Fulfilled
       \<lparr>title = JBuiltin ''constructor'',
        description = JBuiltin ''constructor'',
        keywords_md = JBuiltin ''constructor'',
        icons = \<lparr>icon = ''/images/favicon.png'', apple = ''/images/favicon.png''\<rparr>,
        openGraph =
          \<lparr>og_title = JBuiltin ''constructor'',
           og_description = JBuiltin ''constructor'',
           og_images =
             [\<lparr>url = ''/images/hello-adp.png'', width = 1200, height = 630,
               alt = ''Youtu-RAG Logo''\<rparr>],
           og_locale = JBuiltin ''constructor'',
           og_type = ''website''\<rparr>,
        twitter =
          \<lparr>tw_card = ''summary_large_image'',
           tw_title = JBuiltin ''constructor'',
           tw_description = JBuiltin ''constructor'',
           tw_images = [''/images/hello-adp.png'']\<rparr>\<rparr> \<and>
   generateMetadata (Fulfilled \<lparr>lang = ''constructor''\<rparr>) \<noteq>
     generateMetadata (Fulfilled \<lparr>lang = ''en''\<rparr>)"
proof -
  have "''constructor'' \<in> set Object_prototype_keys"
    by (simp add: Object_prototype_keys_def)
  note sel = selections_inherited [OF this]
  have absent: "''constructor'' \<notin> set (map fst titles)"
    by (simp add: table_keys)
  have en: "js_get og_locales ''en'' = JString ''en_US''"
    by (simp add: js_get_def og_locales_def)
  show ?thesis
    using absent sel en by (simp add: Let_def)
qed

text \<open>
  C2. For a language that is a key of the tables (\<open>en\<close> or \<open>zh\<close>), \<^verbatim>\<open>generateMetadata\<close>
  returns exactly that language's entries: the title, the description, the keyword list
  and the Open Graph locale tag are the table entries stored under the language, and the
  Open Graph image's alt text is \<open>Youtu-RAG Logo\<close>.
\<close>

theorem generateMetadata_supported:
  assumes "l = ''en'' \<or> l = ''zh''"
  shows "\<exists>m. generateMetadata (Fulfilled \<lparr>lang = l\<rparr>) = Fulfilled m \<and>
           map_of titles l = Some (title m) \<and>
           map_of descriptions l = Some (description m) \<and>
           map_of keywordsMap l = Some (keywords_md m) \<and>
           map_of og_locales l = Some (og_locale (openGraph m)) \<and>
           map alt (og_images (openGraph m)) = [''Youtu-RAG Logo'']"
proof -
  from assms obtain t d k loc where own:
    "map_of titles l = Some t" "map_of descriptions l = Some d"
    "map_of keywordsMap l = Some k" "map_of og_locales l = Some loc"
    by (auto simp add: titles_def descriptions_def keywordsMap_def og_locales_def)
  then have "js_or (js_get titles l) (js_get titles ''en'') = t"
    and "js_or (js_get descriptions l) (js_get descriptions ''en'') = d"
    and "js_or (js_get keywordsMap l) (js_get keywordsMap ''en'') = k"
    and "js_or (js_get og_locales l) (js_get og_locales ''en'') = loc"
    by (simp_all add: select_own table_entries_truthy)
  with own show ?thesis
    by (simp add: Let_def)
qed

theorem generateMetadata_supported_zh:
  "\<exists>m. generateMetadata (Fulfilled \<lparr>lang = ''zh''\<rparr>) = Fulfilled m \<and>
       map_of titles ''zh'' = Some (title m) \<and>
       map_of descriptions ''zh'' = Some (description m) \<and>
       map_of keywordsMap ''zh'' = Some (keywords_md m) \<and>
       og_locale (openGraph m) = JString ''zh_CN'' \<and>
       map alt (og_images (openGraph m)) = [''Youtu-RAG Logo'']"
  using generateMetadata_supported [of "''zh''"] by (simp add: Let_def og_locales_def)

text \<open>
  C3. For every language, each of the four selections of \<^verbatim>\<open>generateMetadata\<close> should be
  the reference rule \<open>resolve table lang en\<close>. The code departs from the rule at a language
  that names a property of \<^verbatim>\<open>Object.prototype\<close>: at \<open>constructor\<close> the rule gives the
  English entry of each table, and the code gives the inherited function in all four
  fields.
\<close>

theorem generateMetadata_not_resolve:
  "\<exists>m. generateMetadata (Fulfilled \<lparr>lang = ''constructor''\<rparr>) = Fulfilled m \<and>
       title m = JBuiltin ''constructor'' \<and>
       title m \<noteq> resolve titles ''constructor'' ''en'' \<and>
       description m = JBuiltin ''constructor'' \<and>
       description m \<noteq> resolve descriptions ''constructor'' ''en'' \<and>
       keywords_md m = JBuiltin ''constructor'' \<and>
       keywords_md m \<noteq> resolve keywordsMap ''constructor'' ''en'' \<and>
       og_locale (openGraph m) = JBuiltin ''constructor'' \<and>
       og_locale (openGraph m) \<noteq> resolve og_locales ''constructor'' ''en'' \<and>
       resolve og_locales ''constructor'' ''en'' = JString ''en_US''"
proof -
  have "''constructor'' \<in> set Object_prototype_keys"
    by (simp add: Object_prototype_keys_def)
  note code = selections_inherited [OF this]
  have "\<exists>v. map_of titles ''en'' = Some (JString v)"
    and "\<exists>v. map_of descriptions ''en'' = Some (JString v)"
    and "\<exists>v. map_of keywordsMap ''en'' = Some (JArray v)"
    and "map_of og_locales ''en'' = Some (JString ''en_US'')"
    by (simp_all add: titles_def descriptions_def keywordsMap_def og_locales_def)
  then have rule: "\<exists>v. resolve titles ''constructor'' ''en'' = JString v"
    "\<exists>v. resolve descriptions ''constructor'' ''en'' = JString v"
    "\<exists>v. resolve keywordsMap ''constructor'' ''en'' = JArray v"
    "resolve og_locales ''constructor'' ''en'' = JString ''en_US''"
    by (auto simp add: resolve_unsupported table_keys)
  from rule(1) have t: "JBuiltin ''constructor'' \<noteq> resolve titles ''constructor'' ''en''"
    by auto
  from rule(2) have d: "JBuiltin ''constructor'' \<noteq> resolve descriptions ''constructor'' ''en''"
    by auto
  from rule(3) have k: "JBuiltin ''constructor'' \<noteq> resolve keywordsMap ''constructor'' ''en''"
    by auto
  show ?thesis
    using code t d k rule(4) by (simp add: Let_def)
qed

text \<open>
  C4. At an unrecognized language every locale-dependent selection should silently yield
  what the default locale \<open>en\<close> gets, the translations selection of \<^verbatim>\<open>Layout\<close> included,
  and none should throw. The code departs from this at a language that names a property
  of \<^verbatim>\<open>Object.prototype\<close>: at \<open>toString\<close> the translations handed to the provider are
  the inherited function, where \<open>en\<close> gets \<^verbatim>\<open>undefined\<close>, and the metadata is not the
  metadata of \<open>en\<close>. Nothing throws.
\<close>

theorem unrecognized_locale_toString:
  "Layout () (Fulfilled \<lparr>lang = ''toString''\<rparr>) =
     Inr (ClientRootProvider
       \<lparr>i18n_locale = ''toString'', i18n_locales = locales,
        i18n_translations = JBuiltin ''toString''\<rparr> ()) \<and>
   Layout () (Fulfilled \<lparr>lang = ''en''\<rparr>) =
     Inr (ClientRootProvider
       \<lparr>i18n_locale = ''en'', i18n_locales = locales, i18n_translations = JUndefined\<rparr> ()) \<and>
   generateMetadata (Fulfilled \<lparr>lang = ''toString''\<rparr>) \<noteq>
     generateMetadata (Fulfilled \<lparr>lang = ''en''\<rparr>)"
proof -
  have inherited: "''toString'' \<in> set Object_prototype_keys"
    and plain: "''en'' \<notin> set Object_prototype_keys"
    by (simp_all add: Object_prototype_keys_def)
  have "js_get [(''zh'', JObject zh)] ''toString'' = JBuiltin ''toString''"
    using inherited by (simp add: js_get_inherited)
  then have toString: "Layout () (Fulfilled \<lparr>lang = ''toString''\<rparr>) =
     Inr (ClientRootProvider
       \<lparr>i18n_locale = ''toString'', i18n_locales = locales,
        i18n_translations = JBuiltin ''toString''\<rparr> ())"
    by (simp add: Let_def)
  have en: "Layout () (Fulfilled \<lparr>lang = ''en''\<rparr>) =
     Inr (ClientRootProvider
       \<lparr>i18n_locale = ''en'', i18n_locales = locales, i18n_translations = JUndefined\<rparr> ())"
    using plain by (intro Layout_no_translations) simp_all
  note selections_inherited(4) [OF inherited]
  moreover have "js_get og_locales ''en'' = JString ''en_US''"
    by (simp add: js_get_def og_locales_def)
  ultimately have "generateMetadata (Fulfilled \<lparr>lang = ''toString''\<rparr>) \<noteq>
      generateMetadata (Fulfilled \<lparr>lang = ''en''\<rparr>)"
    by (simp add: Let_def)
  with toString en show ?thesis
    by blast
qed

text \<open>
  C5. \<^verbatim>\<open>generateStaticParams\<close> returns one params object per language of the i18n
  configuration, in the order of its language list, and the \<^verbatim>\<open>lang\<close> field of each is that
  language: reading the \<^verbatim>\<open>lang\<close> fields back gives the language list itself, entry by
  entry.
\<close>

theorem generateStaticParams_languages:
  "length (generateStaticParams i18n_cfg) = length (languages i18n_cfg) \<and>
   map lang (generateStaticParams i18n_cfg) = languages i18n_cfg"
proof -
  have "map lang (map (\<lambda>l. \<lparr>lang = l\<rparr>) ls) = ls" for ls
    by (induction ls) simp_all
  then show ?thesis
    by (simp add: generateStaticParams_def)
qed

text \<open>
  C6. The content-collection configuration hands \<^verbatim>\<open>defineDocs\<close> exactly two collections,
  named \<open>docs\<close> and \<open>meta\<close>, and supplies a schema for neither: reading \<^verbatim>\<open>schema\<close> from
  either options object gives \<^verbatim>\<open>undefined\<close>, which leaves the framework's default schema
  in place.
\<close>

theorem defineDocs_options_default_schema:
  "map fst defineDocs_options = [''docs'', ''meta''] \<and>
   map (\<lambda>(name, options). js_get options ''schema'') defineDocs_options =
     [JUndefined, JUndefined]"
  by (simp add: defineDocs_options_def js_get_def Object_prototype_keys_def)

text \<open>
  C7. For every language and every children tree, \<^verbatim>\<open>Layout\<close> returns the children wrapped
  in \<^verbatim>\<open>ClientRootProvider\<close>, whose \<^verbatim>\<open>i18n\<close> prop has the requested language as its locale
  and the fixed two-entry list (English \<open>en\<close>, then the Chinese entry \<open>zh\<close>) as its
  locales.
\<close>

theorem Layout_wraps_children:
  "\<exists>tr. Layout children (Fulfilled \<lparr>lang = l\<rparr>) =
     Inr (ClientRootProvider
       \<lparr>i18n_locale = l,
        i18n_locales =
          [\<lparr>entry_name = ''English'', entry_locale = ''en''\<rparr>,
           \<lparr>entry_name = [CHR 0xE4, CHR 0xB8, CHR 0xAD, CHR 0xE6, CHR 0x96, CHR 0x87],
            entry_locale = ''zh''\<rparr>],
        i18n_translations = tr\<rparr>
       children)"
  by (simp add: Let_def locales_def)

text \<open>
  C8. For every language other than \<open>zh\<close> the translations passed to the provider should
  be \<^verbatim>\<open>undefined\<close>. The code passes something else at a language that names a property of
  \<^verbatim>\<open>Object.prototype\<close>: at \<open>constructor\<close> the read \<^verbatim>\<open>{ zh }[lang]\<close> finds the inherited
  \<^verbatim>\<open>Object\<close> function, and that is handed to the provider as the translations.
\<close>

theorem Layout_constructor:
  "Layout () (Fulfilled \<lparr>lang = ''constructor''\<rparr>) =
     Inr (ClientRootProvider
       \<lparr>i18n_locale = ''constructor'', i18n_locales = locales,
        i18n_translations = JBuiltin ''constructor''\<rparr> ()) \<and>
   JBuiltin ''constructor'' \<noteq> JUndefined"
proof -
  have "''constructor'' \<in> set Object_prototype_keys"
    by (simp add: Object_prototype_keys_def)
  then have "js_get [(''zh'', JObject zh)] ''constructor'' = JBuiltin ''constructor''"
    by (simp add: js_get_inherited)
  then show ?thesis
    by (simp add: Let_def)
qed

text \<open>
  C9. The claim gives the logo of the navigation title the source \<open>/assets/logo.svg\<close>.
  The code passes that path through \<^verbatim>\<open>getAssetPath\<close> first, so the source of the image is
  whatever the helper returns: with a helper that puts the base path \<open>/youtu-rag\<close> in
  front, the logo's source is \<open>/youtu-rag/assets/logo.svg\<close>.
\<close>

theorem baseOptions_logo_src_prefixed:
  "baseOptions (append ''/youtu-rag'') \<lparr>languages = [''en'', ''zh'']\<rparr> ''en'' =
     \<lparr>i18n = \<lparr>languages = [''en'', ''zh'']\<rparr>,
      nav = \<lparr>nav_title = Fragment
        [Image_jsx \<lparr>src = ''/youtu-rag/assets/logo.svg'', img_alt = ''Youtu-RAG'',
                    img_width = 100, img_height = 50\<rparr>]\<rparr>\<rparr> \<and>
   baseOptions (append ''/youtu-rag'') \<lparr>languages = [''en'', ''zh'']\<rparr> ''en'' \<noteq>
     \<lparr>i18n = \<lparr>languages = [''en'', ''zh'']\<rparr>,
      nav = \<lparr>nav_title = Fragment
        [Image_jsx \<lparr>src = ''/assets/logo.svg'', img_alt = ''Youtu-RAG'',
                    img_width = 100, img_height = 50\<rparr>]\<rparr>\<rparr>"
  by (simp add: baseOptions_def)

text \<open>
  C9, as amended. \<^verbatim>\<open>baseOptions\<close> ignores its locale argument: for every two locales it
  returns equal layout options, namely the imported i18n object and a navigation title
  holding one logo image whose source is \<^verbatim>\<open>getAssetPath\<close> applied to \<open>/assets/logo.svg\<close>,
  with alt text \<open>Youtu-RAG\<close>, width 100 and height 50.
\<close>

theorem baseOptions_ignores_locale:
  "baseOptions getAssetPath i18n_cfg l1 = baseOptions getAssetPath i18n_cfg l2 \<and>
   baseOptions getAssetPath i18n_cfg l1 =
     \<lparr>i18n = i18n_cfg,
      nav = \<lparr>nav_title = Fragment
        [Image_jsx \<lparr>src = getAssetPath ''/assets/logo.svg'', img_alt = ''Youtu-RAG'',
                    img_width = 100, img_height = 50\<rparr>]\<rparr>\<rparr>"
  by (simp add: baseOptions_def)

text \<open>
  C10. For every language, everything in the result of \<^verbatim>\<open>generateMetadata\<close> besides the
  selected title, description, keywords and Open Graph locale is a constant: both icons
  are \<open>/images/favicon.png\<close>, the Open Graph images are the single entry
  \<open>/images/hello-adp.png\<close> of width 1200 and height 630 with alt text \<open>Youtu-RAG Logo\<close>,
  the Open Graph type is \<open>website\<close>, and the Twitter card is \<open>summary_large_image\<close> with the
  single image \<open>/images/hello-adp.png\<close>. The remaining fields, the titles and descriptions
  of the Open Graph and Twitter objects, repeat the selected title and description.
\<close>

theorem generateMetadata_constant_fields:
  "\<exists>t d k loc. generateMetadata (Fulfilled \<lparr>lang = l\<rparr>) =
     Fulfilled
       \<lparr>title = t,
        description = d,
        keywords_md = k,
        icons = \<lparr>icon = ''/images/favicon.png'', apple = ''/images/favicon.png''\<rparr>,
        openGraph =
          \<lparr>og_title = t,
           og_description = d,
           og_images =
             [\<lparr>url = ''/images/hello-adp.png'', width = 1200, height = 630,
               alt = ''Youtu-RAG Logo''\<rparr>],
           og_locale = loc,
           og_type = ''website''\<rparr>,
        twitter =
          \<lparr>tw_card = ''summary_large_image'',
           tw_title = t,
           tw_description = d,
           tw_images = [''/images/hello-adp.png'']\<rparr>\<rparr>"
  by (simp add: Let_def)

end
